theory Spec2Isabelle
  imports Main
begin

section \<open>cxoUtils.c: the utility functions of cx\_Oracle\<close>

text \<open>
  The functions of \<^verbatim>\<open>src/cxoUtils.c\<close> that own an intermediate resource are embedded
  here: \<^verbatim>\<open>cxoUtils_initializeDPI\<close>, \<^verbatim>\<open>cxoUtils_processJsonArg\<close> and
  \<^verbatim>\<open>cxoUtils_processSodaDocArg\<close>. Every function takes the program state and
  returns the new one; a failing return (\<^verbatim>\<open>-1\<close> with a Python exception set) is the
  left summand of the result.
\<close>

subsection \<open>Data model\<close>

text \<open>
  Native handles are pointers to structures of ODPI-C; the code never looks inside them,
  so a handle is its address. A handle that the C code holds as a possibly \<^verbatim>\<open>NULL\<close>
  pointer is an \<open>option\<close>.
\<close>

type_synonym dpiContext = nat
type_synonym dpiSodaDb = nat
type_synonym dpiSodaDoc = nat

text \<open>
  \<^verbatim>\<open>dpiVersionInfo\<close> and \<^verbatim>\<open>dpiErrorInfo\<close> are declared in ODPI-C's header, which is
  not among the sources. cxoUtils.c only passes their addresses on, so the contents are
  kept uninterpreted: the integer fields of the one, the message of the other.
\<close>

type_synonym dpiVersionInfo = "int list"
type_synonym dpiErrorInfo = string

text \<open>
  \<^verbatim>\<open>dpiContextCreateParams\<close>: the three members cxoUtils.c reads or writes. A \<^verbatim>\<open>NULL\<close>
  string member is \<open>None\<close>; \<^verbatim>\<open>memset(&localParams, 0, ...)\<close> gives the structure with
  every member \<^verbatim>\<open>NULL\<close>.
\<close>

record dpiContextCreateParams =
  defaultDriverName :: "string option"
  defaultEncoding :: "string option"
  loadErrorUrl :: "string option"

text \<open>
  A Python object is known to this file only by its address and by the three type tests
  \<^verbatim>\<open>PyDict_Check\<close>, \<^verbatim>\<open>PyList_Check\<close> and
  \<^verbatim>\<open>PyObject_TypeCheck(arg, &cxoPyTypeSodaDoc)\<close>. A wrapped SODA document carries its
  native handle (\<^verbatim>\<open>doc->handle\<close>); a string carries its text.
\<close>

datatype pyobj =
    PyDictObject nat
  | PyListObject nat
  | PyUnicodeObject nat string
  | PyBytesObject nat string
  | cxoSodaDoc nat dpiSodaDoc
  | PyOtherObject nat

fun PyDict_Check :: "pyobj \<Rightarrow> bool" where
  "PyDict_Check (PyDictObject a) = True"
| "PyDict_Check other = False"

fun PyList_Check :: "pyobj \<Rightarrow> bool" where
  "PyList_Check (PyListObject a) = True"
| "PyList_Check other = False"

text \<open>
  \<^verbatim>\<open>cxoBuffer\<close>: the members \<^verbatim>\<open>ptr\<close> (here the bytes it points to) and \<^verbatim>\<open>size\<close> that
  \<^verbatim>\<open>cxoUtils_processSodaDocArg\<close> hands to ODPI-C.
\<close>

record cxoBuffer =
  ptr :: string
  size_buffer :: nat

record cxoSodaDatabase =
  handle :: dpiSodaDb

text \<open>
  The Python exception a failing call leaves behind, as a value:
  \<^item> \<open>PyErrPending\<close>: the callee (the JSON dump function, \<^verbatim>\<open>cxoBuffer_fromObject\<close>)
    has already raised, and the function only returns \<^verbatim>\<open>-1\<close>;
  \<^item> \<open>ProgrammingError\<close>: \<^verbatim>\<open>cxoError_raiseFromString(cxoProgrammingErrorException, msg)\<close>;
  \<^item> \<open>TypeError\<close>: \<^verbatim>\<open>PyErr_SetString(PyExc_TypeError, msg)\<close>;
  \<^item> \<open>DpiErrorFromInfo\<close>: \<^verbatim>\<open>cxoError_raiseFromInfo(&errorInfo)\<close>;
  \<^item> \<open>DpiError\<close>: \<^verbatim>\<open>cxoError_raiseAndReturnInt()\<close>, the error ODPI-C has recorded.
\<close>

datatype error =
    PyErrPending
  | ProgrammingError string
  | TypeError string
  | DpiErrorFromInfo dpiErrorInfo
  | DpiError

subsection \<open>State\<close>

text \<open>
  The release operations the functions of this file perform, in the order they perform
  them: \<^verbatim>\<open>Py_DECREF(obj)\<close>, \<^verbatim>\<open>cxoBuffer_clear(&buffer)\<close> and
  \<^verbatim>\<open>dpiContext_destroy(context)\<close>.
\<close>

datatype event =
    PY_DECREF pyobj
  | BUFFER_CLEAR cxoBuffer
  | CONTEXT_DESTROY dpiContext

text \<open>
  The state: the two globals of the module that cxoUtils.c writes
  (\<^verbatim>\<open>cxoDpiContext\<close>, \<^verbatim>\<open>NULL\<close> until initialised, and \<^verbatim>\<open>cxoClientVersionInfo\<close>), and
  the releases performed so far.
\<close>

record world =
  cxoDpiContext :: "dpiContext option"
  cxoClientVersionInfo :: dpiVersionInfo
  trace :: "event list"

definition Py_DECREF :: "pyobj \<Rightarrow> world \<Rightarrow> world" where
  "Py_DECREF obj w = w\<lparr>trace := trace w @ [PY_DECREF obj]\<rparr>"

definition cxoBuffer_clear :: "cxoBuffer \<Rightarrow> world \<Rightarrow> world" where
  \<comment> \<open>Modelled from the spec: \<^verbatim>\<open>cxoBuffer_clear\<close> (cxoBuffer.c, not among the sources)
      releases the Intermediate Buffer, "a transient owned byte sequence (pointer +
      length) produced by encoding a host value".\<close>
  "cxoBuffer_clear buffer w = w\<lparr>trace := trace w @ [BUFFER_CLEAR buffer]\<rparr>"

definition dpiContext_destroy :: "dpiContext \<Rightarrow> world \<Rightarrow> world" where
  "dpiContext_destroy context w = w\<lparr>trace := trace w @ [CONTEXT_DESTROY context]\<rparr>"

text \<open>
  How often the call that took the state from \<open>w\<close> to \<open>w'\<close> performed the release
  \<open>ev\<close>: its occurrences among the events the call appended.
\<close>

definition release_count :: "event \<Rightarrow> world \<Rightarrow> world \<Rightarrow> nat" where
  "release_count ev w w' = count_list (drop (length (trace w)) (trace w')) ev"

subsection \<open>Collaborators\<close>

text \<open>
  What cxoUtils.c calls but does not implement, and the constants of headers that are not
  among the sources, are parameters of the model:
  \<^item> \<open>cxoJsonDumpFunction obj\<close>: \<^verbatim>\<open>PyObject_CallFunctionObjArgs(cxoJsonDumpFunction, obj,
    NULL)\<close>, a new reference to the serialised value or \<^verbatim>\<open>NULL\<close> (\<open>None\<close>);
  \<^item> \<open>cxoBuffer_fromObject obj encoding\<close> (cxoBuffer.c, not among the sources): the
    filled buffer on success, \<open>None\<close> for a negative return, which leaves no buffer
    behind;
  \<^item> the ODPI-C calls return the \<^verbatim>\<open>int\<close> status the C code tests with \<^verbatim>\<open>< 0\<close>, and with
    it what they leave in their out-parameters. \<^verbatim>\<open>dpiContext_getClientVersion\<close> writes
    through a pointer to the global \<^verbatim>\<open>cxoClientVersionInfo\<close>, so it gets the old
    contents and returns the new ones, on failure too. A successful
    \<^verbatim>\<open>dpiContext_createWithParams\<close> leaves a context that is not \<^verbatim>\<open>NULL\<close>.
\<close>

record env =
  CXO_DRIVER_NAME :: string
  DPI_MAJOR_VERSION :: nat
  DPI_MINOR_VERSION :: nat
  DPI_SODA_FLAGS_DEFAULT :: nat
  cxoJsonDumpFunction :: "pyobj \<Rightarrow> pyobj option"
  cxoBuffer_fromObject :: "pyobj option \<Rightarrow> string \<Rightarrow> cxoBuffer option"
  dpiContext_createWithParams ::
    "nat \<Rightarrow> nat \<Rightarrow> dpiContextCreateParams \<Rightarrow> int \<times> dpiContext \<times> dpiErrorInfo"
  dpiContext_getClientVersion :: "dpiContext \<Rightarrow> dpiVersionInfo \<Rightarrow> int \<times> dpiVersionInfo"
  dpiSodaDoc_addRef :: "dpiSodaDoc \<Rightarrow> int"
  dpiSodaDb_createDocument ::
    "dpiSodaDb \<Rightarrow> string option \<Rightarrow> nat \<Rightarrow> string \<Rightarrow> nat \<Rightarrow> string option \<Rightarrow> nat \<Rightarrow> nat
      \<Rightarrow> int \<times> dpiSodaDoc"

subsection \<open>cxoUtils\_initializeDPI\<close>

text \<open>
  Lines 127-138: the parameters handed to ODPI-C. \<^verbatim>\<open>memcpy\<close> from the caller's
  structure, or \<^verbatim>\<open>memset\<close> to zero; then the encoding is forced and the driver name and
  the URL are defaulted.
\<close>

definition localParams :: "env \<Rightarrow> dpiContextCreateParams option \<Rightarrow> dpiContextCreateParams" where
  "localParams e params =
     (let p0 = (case params of
                  Some p \<Rightarrow> p
                | None \<Rightarrow> \<lparr>defaultDriverName = None, defaultEncoding = None,
                           loadErrorUrl = None\<rparr>);
          p1 = p0\<lparr>defaultEncoding := Some ''UTF-8''\<rparr>;
          p2 = (case defaultDriverName p1 of
                  None \<Rightarrow> p1\<lparr>defaultDriverName := Some (CXO_DRIVER_NAME e)\<rparr>
                | Some n \<Rightarrow> p1)
      in (case loadErrorUrl p2 of
            None \<Rightarrow> p2\<lparr>loadErrorUrl :=
              Some ''https://cx-oracle.readthedocs.io/en/latest/user_guide/installation.html''\<rparr>
          | Some u \<Rightarrow> p2))"

definition cxoUtils_initializeDPI ::
    "env \<Rightarrow> dpiContextCreateParams option \<Rightarrow> world \<Rightarrow> (error + unit) \<times> world" where
  "cxoUtils_initializeDPI e params w =
     (case cxoDpiContext w of
        Some c \<Rightarrow>
          (case params of
             None \<Rightarrow> (Inr (), w)
           | Some p \<Rightarrow>
               (Inl (ProgrammingError ''Oracle Client library has already been initialized''), w))
      | None \<Rightarrow>
          (case dpiContext_createWithParams e (DPI_MAJOR_VERSION e) (DPI_MINOR_VERSION e)
                  (localParams e params) of
             (status, context, errorInfo) \<Rightarrow>
               if status < 0 then (Inl (DpiErrorFromInfo errorInfo), w)
               else
                 (case dpiContext_getClientVersion e context (cxoClientVersionInfo w) of
                    (status2, versionInfo) \<Rightarrow>
                      let w1 = w\<lparr>cxoClientVersionInfo := versionInfo\<rparr> in
                      if status2 < 0 then (Inl DpiError, dpiContext_destroy context w1)
                      else (Inr (), w1\<lparr>cxoDpiContext := Some context\<rparr>))))"

subsection \<open>cxoUtils\_processJsonArg\<close>

text \<open>
  Lines 165-170: a dictionary or list is replaced by the value the JSON dump function
  returns for it, and \<^verbatim>\<open>converted\<close> is set; a failing dump returns \<^verbatim>\<open>-1\<close>. The result
  is the new \<^verbatim>\<open>arg\<close> with \<^verbatim>\<open>converted\<close>.
\<close>

definition processJsonArg_convert ::
    "env \<Rightarrow> pyobj option \<Rightarrow> error + (pyobj option \<times> bool)" where
  "processJsonArg_convert e arg =
     (case arg of
        None \<Rightarrow> Inr (None, False)
      | Some a \<Rightarrow>
          if PyDict_Check a \<or> PyList_Check a then
            (case cxoJsonDumpFunction e a of
               None \<Rightarrow> Inl PyErrPending
             | Some s \<Rightarrow> Inr (Some s, True))
          else Inr (Some a, False))"

text \<open>
  Lines 171-176: the encoding, and the release of the converted value after it. The
  failing encoding returns \<^verbatim>\<open>-1\<close> at once (line 172), before the release of line 174.
  The buffer is the function's out-parameter; it is returned on success. When
  \<^verbatim>\<open>converted\<close> is set, \<^verbatim>\<open>arg\<close> is the dumped value and never \<^verbatim>\<open>NULL\<close>, so the branch
  \<open>None\<close> under \<open>converted\<close> is never taken.
\<close>

definition cxoUtils_processJsonArg ::
    "env \<Rightarrow> pyobj option \<Rightarrow> world \<Rightarrow> (error + cxoBuffer) \<times> world" where
  "cxoUtils_processJsonArg e arg w =
     (case processJsonArg_convert e arg of
        Inl err \<Rightarrow> (Inl err, w)
      | Inr (arg', converted) \<Rightarrow>
          (case cxoBuffer_fromObject e arg' ''UTF-8'' of
             None \<Rightarrow> (Inl PyErrPending, w)
           | Some buffer \<Rightarrow>
               if converted then
                 (case arg' of
                    Some s \<Rightarrow> (Inr buffer, Py_DECREF s w)
                  | None \<Rightarrow> (Inr buffer, w))
               else (Inr buffer, w)))"

subsection \<open>cxoUtils\_processSodaDocArg\<close>

text \<open>
  The three-way dispatch of lines 193-217. Matching the constructor \<open>cxoSodaDoc\<close> is
  the test \<^verbatim>\<open>PyObject_TypeCheck(arg, &cxoPyTypeSodaDoc)\<close> together with the cast that reads
  \<^verbatim>\<open>doc->handle\<close>. In the second branch \<^verbatim>\<open>Py_DECREF(arg)\<close> stands on both sides of the
  encoding test (lines 203 and 206), and \<^verbatim>\<open>cxoBuffer_clear(&buffer)\<close> on both sides of the
  test of \<^verbatim>\<open>dpiSodaDb_createDocument\<close> (lines 209 and 212). The handle is the function's
  out-parameter; it is returned on success.
\<close>

definition createDocument :: "env \<Rightarrow> cxoSodaDatabase \<Rightarrow> cxoBuffer \<Rightarrow> int \<times> dpiSodaDoc" where
  \<comment> \<open>The call of lines 207-208: no key, no media type, the default flags.\<close>
  "createDocument e db buffer =
     dpiSodaDb_createDocument e (handle db) None 0 (ptr buffer) (size_buffer buffer) None 0
       (DPI_SODA_FLAGS_DEFAULT e)"

definition cxoUtils_processSodaDocArg ::
    "env \<Rightarrow> cxoSodaDatabase \<Rightarrow> pyobj \<Rightarrow> world \<Rightarrow> (error + dpiSodaDoc) \<times> world" where
  "cxoUtils_processSodaDocArg e db arg w =
     (case arg of
        cxoSodaDoc a doc_handle \<Rightarrow>
          if dpiSodaDoc_addRef e doc_handle < 0 then (Inl DpiError, w)
          else (Inr doc_handle, w)
      | other \<Rightarrow>
          if PyDict_Check arg \<or> PyList_Check arg then
            (case cxoJsonDumpFunction e arg of
               None \<Rightarrow> (Inl PyErrPending, w)
             | Some s \<Rightarrow>
                 (case cxoBuffer_fromObject e (Some s) ''UTF-8'' of
                    None \<Rightarrow> (Inl PyErrPending, Py_DECREF s w)
                  | Some buffer \<Rightarrow>
                      let w1 = Py_DECREF s w in
                      (case createDocument e db buffer of
                         (status, doc_handle) \<Rightarrow>
                           if status < 0 then (Inl DpiError, cxoBuffer_clear buffer w1)
                           else (Inr doc_handle, cxoBuffer_clear buffer w1))))
          else
            (Inl (TypeError ''value must be a SODA document or a dictionary or list''), w))"

subsection \<open>Example runs\<close>

text \<open>
  A list argument, the text the JSON dump function makes of it, the buffer that encodes
  the text, and collaborators that all succeed; then the same collaborators with one of
  them failing.
\<close>

definition example_list :: pyobj where
  "example_list = PyListObject 100"

definition example_json :: pyobj where
  "example_json = PyUnicodeObject 200 ''[1, 2]''"

definition example_buffer :: cxoBuffer where
  "example_buffer = \<lparr>ptr = ''[1, 2]'', size_buffer = 6\<rparr>"

definition example_db :: cxoSodaDatabase where
  "example_db = \<lparr>handle = 40\<rparr>"

definition example_world :: world where
  "example_world = \<lparr>cxoDpiContext = None, cxoClientVersionInfo = [], trace = []\<rparr>"

definition example_env :: env where
  "example_env =
     \<lparr>CXO_DRIVER_NAME = ''cx_Oracle : 8.0'',
      DPI_MAJOR_VERSION = 4,
      DPI_MINOR_VERSION = 0,
      DPI_SODA_FLAGS_DEFAULT = 0,
      cxoJsonDumpFunction = (\<lambda>obj. Some example_json),
      cxoBuffer_fromObject =
        (\<lambda>obj encoding. case obj of
           Some (PyUnicodeObject a s) \<Rightarrow> Some \<lparr>ptr = s, size_buffer = length s\<rparr>
         | Some (PyBytesObject a s) \<Rightarrow> Some \<lparr>ptr = s, size_buffer = length s\<rparr>
         | None \<Rightarrow> Some \<lparr>ptr = [], size_buffer = 0\<rparr>
         | Some other \<Rightarrow> None),
      dpiContext_createWithParams = (\<lambda>major minor p. (0, 7, [])),
      dpiContext_getClientVersion = (\<lambda>context old. (0, [19, 3, 0, 0, 0])),
      dpiSodaDoc_addRef = (\<lambda>doc. 0),
      dpiSodaDb_createDocument =
        (\<lambda>db key keyLength content contentLength mediaType mediaTypeLength flags. (0, 55))\<rparr>"

definition env_encode_fails :: env where
  "env_encode_fails = example_env\<lparr>cxoBuffer_fromObject := (\<lambda>obj encoding. None)\<rparr>"

definition env_createDocument_fails :: env where
  "env_createDocument_fails =
     example_env\<lparr>dpiSodaDb_createDocument :=
       (\<lambda>db key keyLength content contentLength mediaType mediaTypeLength flags. (- 1, 0))\<rparr>"

definition env_createContext_fails :: env where
  "env_createContext_fails =
     example_env\<lparr>dpiContext_createWithParams := (\<lambda>major minor p. (- 1, 0, ''DPI-1047''))\<rparr>"

definition env_getClientVersion_fails :: env where
  "env_getClientVersion_fails =
     example_env\<lparr>dpiContext_getClientVersion := (\<lambda>context old. (- 1, old))\<rparr>"

section \<open>Properties\<close>

subsection \<open>cxoUtils\_processJsonArg: the converted value\<close>

text \<open>
  When the argument is a dictionary or a list, the dump succeeds and the encoding
  succeeds, the dumped value is released once and the buffer is returned.
\<close>

lemma processJsonArg_literal_encoded:
  assumes "PyDict_Check a \<or> PyList_Check a"
    and "cxoJsonDumpFunction e a = Some s"
    and "cxoBuffer_fromObject e (Some s) ''UTF-8'' = Some buffer"
  shows "cxoUtils_processJsonArg e (Some a) w = (Inr buffer, Py_DECREF s w)"
  using assms by (simp add: cxoUtils_processJsonArg_def processJsonArg_convert_def)

text \<open>
  When the encoding of the dumped value fails, the function returns the failure with the
  state as it was: line 172 returns before the \<^verbatim>\<open>Py_DECREF\<close> of line 174.
\<close>

lemma processJsonArg_literal_not_encoded:
  assumes "PyDict_Check a \<or> PyList_Check a"
    and "cxoJsonDumpFunction e a = Some s"
    and "cxoBuffer_fromObject e (Some s) ''UTF-8'' = None"
  shows "cxoUtils_processJsonArg e (Some a) w = (Inl PyErrPending, w)"
  using assms by (simp add: cxoUtils_processJsonArg_def processJsonArg_convert_def)

text \<open>
  Claim C1 says: in \<^verbatim>\<open>cxoUtils_processJsonArg\<close>, for an argument that is a mapping or an
  ordered sequence, if the JSON serialization succeeds but the encoding of the serialized
  value to a UTF-8 buffer fails, the newly produced serialized value is still released
  exactly once before the function returns failure.

  The code does not do this. For the list \<open>example_list\<close>, whose dump succeeds with
  \<open>example_json\<close> and whose encoding fails, the function returns the failure and has
  released \<open>example_json\<close> zero times: the new reference is lost. On the same input
  \<^verbatim>\<open>cxoUtils_processSodaDocArg\<close>, which has a \<^verbatim>\<open>Py_DECREF\<close> on its failing branch
  (line 203), releases it once.
\<close>

theorem cxoUtils_processJsonArg_encode_failure_leak:
  "cxoJsonDumpFunction env_encode_fails example_list = Some example_json \<and>
   cxoBuffer_fromObject env_encode_fails (Some example_json) ''UTF-8'' = None \<and>
   cxoUtils_processJsonArg env_encode_fails (Some example_list) example_world
     = (Inl PyErrPending, example_world) \<and>
   release_count (PY_DECREF example_json) example_world
     (snd (cxoUtils_processJsonArg env_encode_fails (Some example_list) example_world)) = 0 \<and>
   release_count (PY_DECREF example_json) example_world
     (snd (cxoUtils_processSodaDocArg env_encode_fails example_db example_list example_world)) = 1"
  by (simp add: cxoUtils_processJsonArg_def processJsonArg_convert_def
      cxoUtils_processSodaDocArg_def env_encode_fails_def example_env_def example_list_def
      example_json_def example_world_def release_count_def Py_DECREF_def)

subsection \<open>cxoUtils\_initializeDPI: failure leaves the module uninitialised\<close>

text \<open>
  Once the context exists the function creates nothing and leaves the state alone:
  without parameters it succeeds, with parameters it raises.
\<close>

lemma initializeDPI_already_initialized:
  assumes "cxoDpiContext w = Some c"
  shows "snd (cxoUtils_initializeDPI e params w) = w"
    and "cxoUtils_initializeDPI e None w = (Inr (), w)"
    and "fst (cxoUtils_initializeDPI e (Some p) w)
      = Inl (ProgrammingError ''Oracle Client library has already been initialized'')"
  using assms by (simp_all add: cxoUtils_initializeDPI_def split: option.split)

text \<open>
  Claim C2: \<^verbatim>\<open>cxoUtils_initializeDPI\<close> is atomic on failure. Started with no context
  (\<^verbatim>\<open>cxoDpiContext\<close> is \<^verbatim>\<open>NULL\<close>), with \<open>status\<close>, \<open>context\<close> and \<open>errorInfo\<close> what
  \<^verbatim>\<open>dpiContext_createWithParams\<close> returns and \<open>status2\<close> what
  \<^verbatim>\<open>dpiContext_getClientVersion\<close> returns on that context:
  \<^item> if the creation fails, the call fails with the error of \<open>errorInfo\<close> and the whole
    state is unchanged, so the module is still uninitialised and a later call tries
    again;
  \<^item> if the creation succeeds and the version fetch fails, the call fails, the global
    handle is still unset, and the one release the call performed is the destruction of
    the context just created;
  \<^item> if both succeed, the call succeeds, the global handle is that context and nothing
    was released;
  \<^item> so the global handle is set afterwards exactly when both steps succeeded.
\<close>

theorem cxoUtils_initializeDPI_atomic_on_failure:
  assumes uninit: "cxoDpiContext w = None"
    and create: "dpiContext_createWithParams e (DPI_MAJOR_VERSION e) (DPI_MINOR_VERSION e)
        (localParams e params) = (status, context, errorInfo)"
    and version: "dpiContext_getClientVersion e context (cxoClientVersionInfo w)
        = (status2, versionInfo)"
    and run: "cxoUtils_initializeDPI e params w = (r, w')"
  shows "(status < 0 \<longrightarrow> r = Inl (DpiErrorFromInfo errorInfo) \<and> w' = w) \<and>
    (0 \<le> status \<and> status2 < 0 \<longrightarrow>
       r = Inl DpiError \<and> cxoDpiContext w' = None \<and>
       trace w' = trace w @ [CONTEXT_DESTROY context] \<and>
       release_count (CONTEXT_DESTROY context) w w' = 1) \<and>
    (0 \<le> status \<and> 0 \<le> status2 \<longrightarrow>
       r = Inr () \<and> cxoDpiContext w' = Some context \<and> trace w' = trace w) \<and>
    (cxoDpiContext w' \<noteq> None \<longleftrightarrow> 0 \<le> status \<and> 0 \<le> status2)"
proof -
  consider (a) "status < 0" | (b) "0 \<le> status" "status2 < 0" | (c) "0 \<le> status" "0 \<le> status2"
    by linarith
  then show ?thesis
  proof cases
    case a
    with uninit create run show ?thesis
      by (simp add: cxoUtils_initializeDPI_def)
  next
    case b
    with uninit create version run show ?thesis
      by (auto simp add: cxoUtils_initializeDPI_def dpiContext_destroy_def release_count_def)
  next
    case c
    with uninit create version run show ?thesis
      by (auto simp add: cxoUtils_initializeDPI_def)
  qed
qed

text \<open>
  The three cases on the example state: a creation that fails with DPI-1047, a version
  fetch that fails on the context 7, and a run where both succeed.
\<close>

theorem cxoUtils_initializeDPI_atomic_on_failure_witness:
  "(let r = fst (cxoUtils_initializeDPI env_createContext_fails None example_world);
        w' = snd (cxoUtils_initializeDPI env_createContext_fails None example_world)
    in r = Inl (DpiErrorFromInfo ''DPI-1047'') \<and> w' = example_world) \<and>
   (let r = fst (cxoUtils_initializeDPI env_getClientVersion_fails None example_world);
        w' = snd (cxoUtils_initializeDPI env_getClientVersion_fails None example_world)
    in r = Inl DpiError \<and> cxoDpiContext w' = None \<and>
       release_count (CONTEXT_DESTROY 7) example_world w' = 1) \<and>
   (let r = fst (cxoUtils_initializeDPI example_env None example_world);
        w' = snd (cxoUtils_initializeDPI example_env None example_world)
    in r = Inr () \<and> cxoDpiContext w' = Some 7 \<and> trace w' = [])"
proof -
  have uninit: "cxoDpiContext example_world = None"
    by (simp add: example_world_def)
  have create1: "dpiContext_createWithParams env_createContext_fails
      (DPI_MAJOR_VERSION env_createContext_fails) (DPI_MINOR_VERSION env_createContext_fails)
      (localParams env_createContext_fails None) = (- 1, 0, ''DPI-1047'')"
    by (simp add: env_createContext_fails_def)
  have version1: "dpiContext_getClientVersion env_createContext_fails 0
      (cxoClientVersionInfo example_world) = (0, [19, 3, 0, 0, 0])"
    by (simp add: env_createContext_fails_def example_env_def)
  have create2: "dpiContext_createWithParams env_getClientVersion_fails
      (DPI_MAJOR_VERSION env_getClientVersion_fails)
      (DPI_MINOR_VERSION env_getClientVersion_fails)
      (localParams env_getClientVersion_fails None) = (0, 7, [])"
    by (simp add: env_getClientVersion_fails_def example_env_def)
  have version2: "dpiContext_getClientVersion env_getClientVersion_fails 7
      (cxoClientVersionInfo example_world) = (- 1, [])"
    by (simp add: env_getClientVersion_fails_def example_world_def)
  have create3: "dpiContext_createWithParams example_env
      (DPI_MAJOR_VERSION example_env) (DPI_MINOR_VERSION example_env)
      (localParams example_env None) = (0, 7, [])"
    by (simp add: example_env_def)
  have version3: "dpiContext_getClientVersion example_env 7
      (cxoClientVersionInfo example_world) = (0, [19, 3, 0, 0, 0])"
    by (simp add: example_env_def)
  note a = cxoUtils_initializeDPI_atomic_on_failure [OF uninit create1 version1 surjective_pairing]
  note b = cxoUtils_initializeDPI_atomic_on_failure [OF uninit create2 version2 surjective_pairing]
  note c = cxoUtils_initializeDPI_atomic_on_failure [OF uninit create3 version3 surjective_pairing]
  show ?thesis
    using a b c by (simp add: example_world_def)
qed

subsection \<open>cxoUtils\_processSodaDocArg: the intermediates of the literal branch\<close>

text \<open>
  The second branch of the dispatch, once the dump has succeeded: what is returned and
  which releases have been performed, by the outcome of the encoding and of the document
  creation.
\<close>

lemma processSodaDocArg_literal:
  assumes "PyDict_Check arg \<or> PyList_Check arg"
    and "cxoJsonDumpFunction e arg = Some s"
  shows "cxoUtils_processSodaDocArg e db arg w =
     (case cxoBuffer_fromObject e (Some s) ''UTF-8'' of
        None \<Rightarrow> (Inl PyErrPending, Py_DECREF s w)
      | Some buffer \<Rightarrow>
          (if fst (createDocument e db buffer) < 0 then Inl DpiError
           else Inr (snd (createDocument e db buffer)),
           cxoBuffer_clear buffer (Py_DECREF s w)))"
  using assms
  by (cases arg)
    (simp_all add: cxoUtils_processSodaDocArg_def Let_def case_prod_beta split: option.split)

text \<open>
  Claim C3: in \<^verbatim>\<open>cxoUtils_processSodaDocArg\<close>, for an argument that is a mapping or an
  ordered sequence and whose JSON serialization succeeds with \<open>s\<close>, the intermediates are
  released exactly once before the function returns, on every exit:
  \<^item> the serialized value \<open>s\<close> is released exactly once, whatever happens after the dump;
  \<^item> when the encoding produced the buffer, the buffer is released exactly once, the two
    releases are all the call performed, and this holds on both exits: the failed
    document creation returns the ODPI-C error, the successful one the new handle;
  \<^item> when the encoding fails there is no buffer: the release of \<open>s\<close> is the only one, and
    the call fails.
\<close>

theorem cxoUtils_processSodaDocArg_releases_intermediates:
  assumes literal: "PyDict_Check arg \<or> PyList_Check arg"
    and dumped: "cxoJsonDumpFunction e arg = Some s"
    and run: "cxoUtils_processSodaDocArg e db arg w = (r, w')"
  shows "release_count (PY_DECREF s) w w' = 1 \<and>
    (\<forall>buffer. cxoBuffer_fromObject e (Some s) ''UTF-8'' = Some buffer \<longrightarrow>
       release_count (BUFFER_CLEAR buffer) w w' = 1 \<and>
       trace w' = trace w @ [PY_DECREF s, BUFFER_CLEAR buffer] \<and>
       (fst (createDocument e db buffer) < 0 \<longrightarrow> r = Inl DpiError) \<and>
       (0 \<le> fst (createDocument e db buffer) \<longrightarrow> r = Inr (snd (createDocument e db buffer)))) \<and>
    (cxoBuffer_fromObject e (Some s) ''UTF-8'' = None \<longrightarrow>
       trace w' = trace w @ [PY_DECREF s] \<and> r = Inl PyErrPending)"
proof (cases "cxoBuffer_fromObject e (Some s) ''UTF-8''")
  case None
  with run processSodaDocArg_literal [OF literal dumped, where db = db and w = w]
  have "r = Inl PyErrPending" and "w' = Py_DECREF s w" by simp_all
  then show ?thesis using None by (simp add: release_count_def Py_DECREF_def)
next
  case (Some buffer)
  with run processSodaDocArg_literal [OF literal dumped, where db = db and w = w]
  have r: "r = (if fst (createDocument e db buffer) < 0 then Inl DpiError
                else Inr (snd (createDocument e db buffer)))"
    and w': "w' = cxoBuffer_clear buffer (Py_DECREF s w)" by simp_all
  from w' have tr: "trace w' = trace w @ [PY_DECREF s, BUFFER_CLEAR buffer]"
    by (simp add: Py_DECREF_def cxoBuffer_clear_def)
  show ?thesis using Some r tr by (simp add: release_count_def)
qed

text \<open>
  The three exits on the example list: the document is created; the creation fails; the
  encoding fails.
\<close>

theorem cxoUtils_processSodaDocArg_releases_intermediates_witness:
  "(let w' = snd (cxoUtils_processSodaDocArg example_env example_db example_list example_world);
        r = fst (cxoUtils_processSodaDocArg example_env example_db example_list example_world)
    in release_count (PY_DECREF example_json) example_world w' = 1 \<and>
       release_count (BUFFER_CLEAR example_buffer) example_world w' = 1 \<and>
       r = Inr 55) \<and>
   (let w' = snd (cxoUtils_processSodaDocArg env_createDocument_fails example_db example_list
                    example_world);
        r = fst (cxoUtils_processSodaDocArg env_createDocument_fails example_db example_list
                    example_world)
    in release_count (PY_DECREF example_json) example_world w' = 1 \<and>
       release_count (BUFFER_CLEAR example_buffer) example_world w' = 1 \<and>
       r = Inl DpiError) \<and>
   (let w' = snd (cxoUtils_processSodaDocArg env_encode_fails example_db example_list
                    example_world);
        r = fst (cxoUtils_processSodaDocArg env_encode_fails example_db example_list
                    example_world)
    in release_count (PY_DECREF example_json) example_world w' = 1 \<and>
       trace w' = [PY_DECREF example_json] \<and>
       r = Inl PyErrPending)"
proof -
  have literal: "PyDict_Check example_list \<or> PyList_Check example_list"
    by (simp add: example_list_def)
  have dumped: "cxoJsonDumpFunction example_env example_list = Some example_json"
    "cxoJsonDumpFunction env_createDocument_fails example_list = Some example_json"
    "cxoJsonDumpFunction env_encode_fails example_list = Some example_json"
    by (simp_all add: example_env_def env_createDocument_fails_def env_encode_fails_def)
  have encoded: "cxoBuffer_fromObject example_env (Some example_json) ''UTF-8'' = Some example_buffer"
    "cxoBuffer_fromObject env_createDocument_fails (Some example_json) ''UTF-8''
       = Some example_buffer"
    "cxoBuffer_fromObject env_encode_fails (Some example_json) ''UTF-8'' = None"
    by (simp_all add: example_env_def env_createDocument_fails_def env_encode_fails_def
        example_json_def example_buffer_def)
  have created: "createDocument example_env example_db example_buffer = (0, 55)"
    "createDocument env_createDocument_fails example_db example_buffer = (- 1, 0)"
    by (simp_all add: createDocument_def example_env_def env_createDocument_fails_def)
  note ok = cxoUtils_processSodaDocArg_releases_intermediates
    [OF literal dumped(1) surjective_pairing,
      where db = example_db and w = example_world]
  note fails = cxoUtils_processSodaDocArg_releases_intermediates
    [OF literal dumped(2) surjective_pairing,
      where db = example_db and w = example_world]
  note unencoded = cxoUtils_processSodaDocArg_releases_intermediates
    [OF literal dumped(3) surjective_pairing,
      where db = example_db and w = example_world]
  show ?thesis
    using ok fails unencoded encoded created by (simp add: example_world_def)
qed

end
